theory Spec2Isabelle
  imports Main
begin

section \<open>Strings and regular expressions\<close>

text \<open>
  The user-data routines of \<^verbatim>\<open>fb-capi-user-data.ts\<close> work on JavaScript strings,
  which are sequences of UTF-16 code units. A string is modelled as a \<^typ>\<open>string\<close>
  with one \<^typ>\<open>char\<close> per code unit, so the model covers the strings whose code
  units are below 256 (ASCII and the Latin-1 supplement). On that range the character
  classes \<^verbatim>\<open>\s\<close>, \<^verbatim>\<open>\D\<close> and \<^verbatim>\<open>[0-9abcdef]\<close> (with flag \<^verbatim>\<open>i\<close>) and
  \<^verbatim>\<open>String.prototype.toLowerCase\<close> are the following.
\<close>

definition isWhitespace :: "char \<Rightarrow> bool" where
  \<comment> \<open>\<^verbatim>\<open>\s\<close>: TAB, LF, VT, FF, CR, SPACE and NO-BREAK SPACE\<close>
  "isWhitespace c = (of_char c \<in> {9, 10, 11, 12, 13, 32, 160 :: nat})"

definition isDigit :: "char \<Rightarrow> bool" where
  \<comment> \<open>\<^verbatim>\<open>\d\<close>, the complement of \<^verbatim>\<open>\D\<close>\<close>
  "isDigit c = (c \<in> set ''0123456789'')"

definition isHexDigit :: "char \<Rightarrow> bool" where
  \<comment> \<open>\<^verbatim>\<open>[0-9abcdef]\<close> under the ignore-case flag\<close>
  "isHexDigit c = (c \<in> set ''0123456789abcdefABCDEF'')"

definition toLowerCase_char :: "char \<Rightarrow> char" where
  \<comment> \<open>A-Z and the capital letters of Latin-1 (all of 0xC0-0xDE but the sign 0xD7)\<close>
  "toLowerCase_char c =
     (let n = of_char c :: nat
      in if (65 \<le> n \<and> n \<le> 90) \<or> (192 \<le> n \<and> n \<le> 222 \<and> n \<noteq> 215)
         then char_of (n + 32) else c)"

definition toLowerCase :: "string \<Rightarrow> string" where
  "toLowerCase s = map toLowerCase_char s"

definition replace_whitespace :: "string \<Rightarrow> string" where
  \<comment> \<open>\<^verbatim>\<open>s.replace(/\s/g, '')\<close>: every match is one code unit, and it is dropped\<close>
  "replace_whitespace s = filter (\<lambda>c. \<not> isWhitespace c) s"

definition replace_non_digits :: "string \<Rightarrow> string" where
  \<comment> \<open>\<^verbatim>\<open>s.replace(/\D/g, '')\<close>\<close>
  "replace_non_digits s = filter isDigit s"

text \<open>
  \<^verbatim>\<open>new RegExp(/[0-9abcdef]{64}/gi).test(information)\<close>: the expression object is new
  at every call, so the search starts at index 0; it tries each start index in turn and
  succeeds at the first one where 64 characters of the class follow.
\<close>

fun hex_run :: "nat \<Rightarrow> string \<Rightarrow> bool" where
  "hex_run 0 s = True"
| "hex_run (Suc n) [] = False"
| "hex_run (Suc n) (c # cs) = (isHexDigit c \<and> hex_run n cs)"

fun search_hex_run :: "nat \<Rightarrow> string \<Rightarrow> bool" where
  "search_hex_run n [] = hex_run n []"
| "search_hex_run n (c # cs) = (hex_run n (c # cs) \<or> search_hex_run n cs)"

definition isHashedInformation :: "string \<Rightarrow> bool" where
  "isHashedInformation information = search_hex_run 64 information"

section \<open>The user-data object\<close>

text \<open>
  \<^verbatim>\<open>payload.user_data\<close> has the properties declared in \<^verbatim>\<open>user_data_field\<close>; each may
  be \<^verbatim>\<open>undefined\<close> (\<^const>\<open>None\<close>). \<^verbatim>\<open>externalId\<close> is declared as an array of
  strings, and the code still accepts a single string. The property \<^verbatim>\<open>zip\<close> is named
  \<open>zip_field\<close> here. \<^verbatim>\<open>leadID\<close> and \<^verbatim>\<open>fbLoginID\<close> are declared as integers.
\<close>

datatype str_or_arr = Str string | Arr "string list"

record user_data_obj =
  externalId :: "str_or_arr option"
  email :: "string option"
  phone :: "string option"
  gender :: "string option"
  dateOfBirth :: "string option"
  lastName :: "string option"
  firstName :: "string option"
  city :: "string option"
  state :: "string option"
  zip_field :: "string option"
  country :: "string option"
  client_ip_address :: "string option"
  client_user_agent :: "string option"
  fbc :: "string option"
  fbp :: "string option"
  subscriptionID :: "string option"
  leadID :: "int option"
  fbLoginID :: "int option"
  anonId :: "string option"
  madId :: "string option"
  partner_id :: "string option"
  partner_name :: "string option"

record UserData =
  user_data :: user_data_obj

text \<open>
  The object returned by \<^verbatim>\<open>hash_user_data\<close>, one field per key. The keys that are
  spelled like a property of the input carry the suffix \<open>_out\<close>.
\<close>

record hashed_user_data =
  em :: "str_or_arr option"
  ph :: "str_or_arr option"
  ge :: "str_or_arr option"
  db :: "str_or_arr option"
  ln :: "str_or_arr option"
  fn :: "str_or_arr option"
  ct :: "str_or_arr option"
  st :: "str_or_arr option"
  zp :: "str_or_arr option"
  country_out :: "str_or_arr option"
  external_id :: "str_or_arr option"
  client_ip_address_out :: "string option"
  client_user_agent_out :: "string option"
  fbc_out :: "string option"
  fbp_out :: "string option"
  subscription_id :: "string option"
  lead_id :: "int option"
  anon_id :: "string option"
  madid :: "string option"
  fb_login_id :: "int option"
  partner_id_out :: "string option"
  partner_name_out :: "string option"

text \<open>
  \<^verbatim>\<open>US_STATE_CODES\<close> and \<^verbatim>\<open>COUNTRY_CODES\<close> are \<^verbatim>\<open>Map\<close> objects imported from
  \<^verbatim>\<open>./constants\<close>, and \<^verbatim>\<open>processHashingV2\<close> comes from \<^verbatim>\<open>lib/hashing-utils\<close>. Neither
  file is part of the sources covered here, so the two tables and the function
  \<^verbatim>\<open>(v) => processHashingV2(v, 'sha256', 'hex')\<close> are parameters of the functions that use
  them. \<^verbatim>\<open>has\<close> and \<^verbatim>\<open>get\<close> of a table are the lookup in a map.
\<close>

type_synonym code_table = "string \<rightharpoonup> string"

section \<open>Hashing of one value\<close>

definition hash :: "(string \<Rightarrow> string) \<Rightarrow> str_or_arr option \<Rightarrow> str_or_arr option" where
  "hash processHashingV2 v =
     (case v of
        None \<Rightarrow> None
      | Some (Str s) \<Rightarrow> if length s = 0 then None else Some (Str (processHashingV2 s))
      | Some (Arr els) \<Rightarrow> if length els = 0 then None else Some (Arr (map processHashingV2 els)))"

section \<open>Normalization\<close>

text \<open>
  \<^verbatim>\<open>normalize_user_data\<close> mutates the payload; the model returns the payload after the
  call. Each \<^verbatim>\<open>if\<close> statement of the source is one step, and the steps run in the
  order of the source. A string is truthy when it is defined and not empty.
\<close>

definition normalize_email :: "UserData \<Rightarrow> UserData" where
  "normalize_email payload =
     (case email (user_data payload) of
        None \<Rightarrow> payload
      | Some s \<Rightarrow>
          if s \<noteq> [] then
            payload\<lparr>user_data := (user_data payload)
              \<lparr>email := Some (toLowerCase (replace_whitespace s))\<rparr>\<rparr>
          else payload)"

definition normalize_phone :: "UserData \<Rightarrow> UserData" where
  "normalize_phone payload =
     (case phone (user_data payload) of
        None \<Rightarrow> payload
      | Some s \<Rightarrow>
          if s \<noteq> [] \<and> \<not> isHashedInformation s then
            payload\<lparr>user_data := (user_data payload)\<lparr>phone := Some (replace_non_digits s)\<rparr>\<rparr>
          else payload)"

definition normalize_gender :: "UserData \<Rightarrow> UserData" where
  "normalize_gender payload =
     (case gender (user_data payload) of
        None \<Rightarrow> payload
      | Some s \<Rightarrow>
          if s \<noteq> [] then
            (let g = toLowerCase (replace_whitespace s);
                 g = (if g = ''male'' then ''m'' else if g = ''female'' then ''f'' else g)
             in payload\<lparr>user_data := (user_data payload)\<lparr>gender := Some g\<rparr>\<rparr>)
          else payload)"

definition normalize_lastName :: "UserData \<Rightarrow> UserData" where
  "normalize_lastName payload =
     (case lastName (user_data payload) of
        None \<Rightarrow> payload
      | Some s \<Rightarrow>
          if s \<noteq> [] then
            payload\<lparr>user_data := (user_data payload)
              \<lparr>lastName := Some (toLowerCase (replace_whitespace s))\<rparr>\<rparr>
          else payload)"

definition normalize_firstName :: "UserData \<Rightarrow> UserData" where
  "normalize_firstName payload =
     (case firstName (user_data payload) of
        None \<Rightarrow> payload
      | Some s \<Rightarrow>
          if s \<noteq> [] then
            payload\<lparr>user_data := (user_data payload)
              \<lparr>firstName := Some (toLowerCase (replace_whitespace s))\<rparr>\<rparr>
          else payload)"

definition normalize_city :: "UserData \<Rightarrow> UserData" where
  "normalize_city payload =
     (case city (user_data payload) of
        None \<Rightarrow> payload
      | Some s \<Rightarrow>
          if s \<noteq> [] then
            payload\<lparr>user_data := (user_data payload)
              \<lparr>city := Some (toLowerCase (replace_whitespace s))\<rparr>\<rparr>
          else payload)"

definition normalize_state :: "code_table \<Rightarrow> UserData \<Rightarrow> UserData" where
  "normalize_state US_STATE_CODES payload =
     (case state (user_data payload) of
        None \<Rightarrow> payload
      | Some s \<Rightarrow>
          if s \<noteq> [] then
            (let t = toLowerCase (replace_whitespace s);
                 t = (case US_STATE_CODES t of Some code \<Rightarrow> code | None \<Rightarrow> t)
             in payload\<lparr>user_data := (user_data payload)\<lparr>state := Some t\<rparr>\<rparr>)
          else payload)"

definition normalize_zip :: "UserData \<Rightarrow> UserData" where
  "normalize_zip payload =
     (case zip_field (user_data payload) of
        None \<Rightarrow> payload
      | Some s \<Rightarrow>
          if s \<noteq> [] then
            payload\<lparr>user_data := (user_data payload)
              \<lparr>zip_field := Some (toLowerCase (replace_whitespace s))\<rparr>\<rparr>
          else payload)"

definition normalize_country :: "code_table \<Rightarrow> UserData \<Rightarrow> UserData" where
  "normalize_country COUNTRY_CODES payload =
     (case country (user_data payload) of
        None \<Rightarrow> payload
      | Some s \<Rightarrow>
          if s \<noteq> [] then
            (let t = toLowerCase (replace_whitespace s);
                 t = (case COUNTRY_CODES t of Some code \<Rightarrow> code | None \<Rightarrow> t)
             in payload\<lparr>user_data := (user_data payload)\<lparr>country := Some t\<rparr>\<rparr>)
          else payload)"

definition isEmpty :: "str_or_arr option \<Rightarrow> bool" where
  \<comment> \<open>lodash \<^verbatim>\<open>isEmpty\<close> on \<^verbatim>\<open>undefined\<close>, a string or an array\<close>
  "isEmpty v = (case v of None \<Rightarrow> True | Some (Str s) \<Rightarrow> s = [] | Some (Arr els) \<Rightarrow> els = [])"

definition normalize_externalId :: "UserData \<Rightarrow> UserData" where
  "normalize_externalId payload =
     (if \<not> isEmpty (externalId (user_data payload)) then
        (let els = (case externalId (user_data payload) of
                      Some (Str s) \<Rightarrow> Some [s]
                    | Some (Arr xs) \<Rightarrow> Some xs
                    | None \<Rightarrow> None)
         in payload\<lparr>user_data := (user_data payload)
              \<lparr>externalId :=
                 map_option (\<lambda>xs. Arr (map (\<lambda>el. toLowerCase (replace_whitespace el)) xs)) els\<rparr>\<rparr>)
      else payload)"

definition normalize_user_data :: "code_table \<Rightarrow> code_table \<Rightarrow> UserData \<Rightarrow> UserData" where
  "normalize_user_data US_STATE_CODES COUNTRY_CODES payload =
     (let payload = normalize_email payload;
          payload = normalize_phone payload;
          payload = normalize_gender payload;
          payload = normalize_lastName payload;
          payload = normalize_firstName payload;
          payload = normalize_city payload;
          payload = normalize_state US_STATE_CODES payload;
          payload = normalize_zip payload;
          payload = normalize_country COUNTRY_CODES payload;
          payload = normalize_externalId payload
      in payload)"

section \<open>Hashing of the user data\<close>

text \<open>
  \<^verbatim>\<open>hash_user_data\<close> normalizes the payload in place and returns the object of hashed
  and copied values; the model returns that object together with the payload as the
  call leaves it.
\<close>

definition hash_user_data ::
  "(string \<Rightarrow> string) \<Rightarrow> code_table \<Rightarrow> code_table \<Rightarrow> UserData \<Rightarrow> hashed_user_data \<times> UserData"
where
  "hash_user_data processHashingV2 US_STATE_CODES COUNTRY_CODES payload =
     (let payload = normalize_user_data US_STATE_CODES COUNTRY_CODES payload;
          u = user_data payload
      in (\<lparr> em = hash processHashingV2 (map_option Str (email u)),
            ph = hash processHashingV2 (map_option Str (phone u)),
            ge = hash processHashingV2 (map_option Str (gender u)),
            db = hash processHashingV2 (map_option Str (dateOfBirth u)),
            ln = hash processHashingV2 (map_option Str (lastName u)),
            fn = hash processHashingV2 (map_option Str (firstName u)),
            ct = hash processHashingV2 (map_option Str (city u)),
            st = hash processHashingV2 (map_option Str (state u)),
            zp = hash processHashingV2 (map_option Str (zip_field u)),
            country_out = hash processHashingV2 (map_option Str (country u)),
            external_id = hash processHashingV2 (externalId u),
            client_ip_address_out = client_ip_address u,
            client_user_agent_out = client_user_agent u,
            fbc_out = fbc u,
            fbp_out = fbp u,
            subscription_id = subscriptionID u,
            lead_id = leadID u,
            anon_id = anonId u,
            madid = madId u,
            fb_login_id = fbLoginID u,
            partner_id_out = partner_id u,
            partner_name_out = partner_name u \<rparr>,
          payload))"

text \<open>
  Modelled from the spec: \<^verbatim>\<open>processHashingV2\<close> of \<^verbatim>\<open>lib/hashing-utils\<close>, which is not
  part of the sources covered here. The spec describes the hasher as a deterministic one-way
  digest of the normalized value that skips already-hashed values, a value matching the
  64-hex-character pattern being treated as pre-hashed and not hashed again. The digest
  itself (SHA-256 in lowercase hexadecimal) is the parameter \<open>digest\<close>.
\<close>

definition processHashingV2_spec :: "(string \<Rightarrow> string) \<Rightarrow> string \<Rightarrow> string" where
  "processHashingV2_spec digest v = (if isHashedInformation v then v else digest v)"

section \<open>Notions used to state the properties\<close>

abbreviation (input) strip_lower :: "string \<Rightarrow> string" where
  "strip_lower s \<equiv> toLowerCase (replace_whitespace s)"

definition is_normalized :: "string \<Rightarrow> bool" where
  \<comment> \<open>no whitespace character, and no character that lowercasing would change\<close>
  "is_normalized s = (\<forall>c \<in> set s. \<not> isWhitespace c \<and> toLowerCase_char c = c)"

text \<open>
  Two conditions on a code table. Every code of the table is written in lowercase
  without whitespace; and, on top of that, a code that is also a key of the table is
  mapped to itself.
\<close>

definition lowercase_codes :: "code_table \<Rightarrow> bool" where
  "lowercase_codes T = (\<forall>k code. T k = Some code \<longrightarrow> is_normalized code)"

definition stable_codes :: "code_table \<Rightarrow> bool" where
  "stable_codes T =
     (\<forall>k code. T k = Some code \<longrightarrow> is_normalized code \<and> (T code = None \<or> T code = Some code))"

text \<open>The value that normalization leaves in one field, as a function of the old value.\<close>

definition norm_phone :: "string \<Rightarrow> string" where
  "norm_phone s = (if isHashedInformation s then s else replace_non_digits s)"

definition norm_gender :: "string \<Rightarrow> string" where
  "norm_gender s =
     (let g = strip_lower s in if g = ''male'' then ''m'' else if g = ''female'' then ''f'' else g)"

definition norm_code :: "code_table \<Rightarrow> string \<Rightarrow> string" where
  "norm_code T s =
     (if s = [] then s
      else case T (strip_lower s) of Some code \<Rightarrow> code | None \<Rightarrow> strip_lower s)"

definition norm_ext :: "str_or_arr option \<Rightarrow> str_or_arr option" where
  "norm_ext v =
     (case v of
        None \<Rightarrow> None
      | Some (Str s) \<Rightarrow> if s = [] then Some (Str s) else Some (Arr [strip_lower s])
      | Some (Arr xs) \<Rightarrow> Some (Arr (map strip_lower xs)))"

text \<open>Values for the examples: a user-data object with no property set, and two small tables.\<close>

definition no_user_data :: user_data_obj where
  "no_user_data =
     \<lparr> externalId = None, email = None, phone = None, gender = None, dateOfBirth = None,
       lastName = None, firstName = None, city = None, state = None, zip_field = None,
       country = None, client_ip_address = None, client_user_agent = None, fbc = None,
       fbp = None, subscriptionID = None, leadID = None, fbLoginID = None, anonId = None,
       madId = None, partner_id = None, partner_name = None \<rparr>"

definition example_states :: code_table where
  "example_states = [''california'' \<mapsto> ''ca'']"

definition example_countries :: code_table where
  "example_countries = [''unitedstates'' \<mapsto> ''us'']"

definition example_digest :: "string \<Rightarrow> string" where
  "example_digest v = ''digest:'' @ v"

definition example_sha256 :: string where
  \<comment> \<open>64 hexadecimal characters, in upper case\<close>
  "example_sha256 = ''D6736136EA896C1BFDC553E0E86E702C70D060D805696CA3E4E9E0961353860A''"

definition example_payload :: UserData where
  "example_payload =
     \<lparr>user_data = no_user_data
       \<lparr>externalId := Some (Arr [''User123'', ''AB cd'']),
        email := Some '' Test@Example.COM '',
        phone := Some ''+1 (555) 123-4567'',
        gender := Some '' Male '',
        dateOfBirth := Some ''1997 12 26'',
        lastName := Some ''Van Dyke'',
        firstName := Some ''Ann'',
        city := Some ''Menlo Park'',
        state := Some ''California'',
        zip_field := Some ''94 025'',
        country := Some ''United States'',
        client_ip_address := Some ''192.0.2.1'',
        client_user_agent := Some ''Mozilla/5.0 (X11)'',
        fbc := Some ''fb.1.1554763741205.AbCdEf'',
        fbp := Some ''fb.1.1558571054389.1098115397'',
        subscriptionID := Some ''Sub 1'',
        leadID := Some 1234,
        fbLoginID := Some 5678,
        anonId := Some ''Anon 1'',
        madId := Some ''38400000-8CF0-11BD-B23E-10B96E40000D'',
        partner_id := Some ''Partner 1'',
        partner_name := Some ''Partner Name''\<rparr>\<rparr>"

section \<open>Properties of the pre-hashed detection\<close>

lemma hex_run_iff:
  "hex_run n s \<longleftrightarrow> n \<le> length s \<and> list_all isHexDigit (take n s)"
  by (induction n s rule: hex_run.induct) auto

lemma search_hex_run_iff:
  "search_hex_run n s \<longleftrightarrow> (\<exists>i. hex_run n (drop i s))"
proof (induction s)
  case Nil
  show ?case by simp
next
  case (Cons c cs)
  show ?case
  proof
    assume "search_hex_run n (c # cs)"
    then consider "hex_run n (c # cs)" | "search_hex_run n cs" by auto
    then show "\<exists>i. hex_run n (drop i (c # cs))"
    proof cases
      case 1
      then have "hex_run n (drop 0 (c # cs))" by simp
      then show ?thesis by blast
    next
      case 2
      with Cons.IH obtain i where "hex_run n (drop i cs)" by blast
      then have "hex_run n (drop (Suc i) (c # cs))" by simp
      then show ?thesis by blast
    qed
  next
    assume "\<exists>i. hex_run n (drop i (c # cs))"
    then obtain i where i: "hex_run n (drop i (c # cs))" by blast
    show "search_hex_run n (c # cs)"
    proof (cases i)
      case 0
      with i show ?thesis by simp
    next
      case (Suc j)
      with i have "hex_run n (drop j cs)" by simp
      with Cons.IH show ?thesis by auto
    qed
  qed
qed

lemma search_hex_run_infix:
  "search_hex_run n s \<longleftrightarrow>
     (\<exists>pre run post. s = pre @ run @ post \<and> length run = n \<and> list_all isHexDigit run)"
proof
  assume "search_hex_run n s"
  then obtain i where i: "n \<le> length (drop i s)" "list_all isHexDigit (take n (drop i s))"
    by (auto simp: search_hex_run_iff hex_run_iff)
  have "take n (drop i s) @ drop n (drop i s) = drop i s" by (rule append_take_drop_id)
  then have "s = take i s @ take n (drop i s) @ drop n (drop i s)" by (simp del: drop_drop)
  moreover from i(1) have "length (take n (drop i s)) = n" by simp
  ultimately show "\<exists>pre run post. s = pre @ run @ post \<and> length run = n \<and> list_all isHexDigit run"
    using i(2) by blast
next
  assume "\<exists>pre run post. s = pre @ run @ post \<and> length run = n \<and> list_all isHexDigit run"
  then obtain pre run post where
    s: "s = pre @ run @ post" and n: "length run = n" and h: "list_all isHexDigit run"
    by blast
  from s n h have "hex_run n (drop (length pre) s)" by (simp add: hex_run_iff)
  then show "search_hex_run n s" unfolding search_hex_run_iff by blast
qed

text \<open>
  C10. The detection is an unanchored search: a string is classified as already hashed
  exactly when 64 consecutive hexadecimal characters (either case) occur somewhere in it.
  The whole string need not be 64 characters long: every string made of 64 or more
  hexadecimal characters is classified as hashed, and so is any text around such a run.
\<close>

theorem isHashedInformation_unanchored:
  "(isHashedInformation information \<longleftrightarrow>
      (\<exists>pre run post. information = pre @ run @ post \<and> length run = 64 \<and>
         list_all isHexDigit run)) \<and>
   (64 \<le> length hexes \<and> list_all isHexDigit hexes \<longrightarrow>
      isHashedInformation (before @ hexes @ after))"
proof
  show "isHashedInformation information \<longleftrightarrow>
      (\<exists>pre run post. information = pre @ run @ post \<and> length run = 64 \<and>
         list_all isHexDigit run)"
    unfolding isHashedInformation_def by (rule search_hex_run_infix)
next
  show "64 \<le> length hexes \<and> list_all isHexDigit hexes \<longrightarrow>
      isHashedInformation (before @ hexes @ after)"
  proof
    assume a: "64 \<le> length hexes \<and> list_all isHexDigit hexes"
    have "before @ hexes @ after = before @ take 64 hexes @ (drop 64 hexes @ after)" by simp
    moreover from a have "length (take 64 hexes) = 64" by simp
    moreover from a have "list_all isHexDigit (take 64 hexes)"
      by (auto simp: list_all_iff dest: in_set_takeD)
    ultimately show "isHashedInformation (before @ hexes @ after)"
      unfolding isHashedInformation_def search_hex_run_infix by blast
  qed
qed

theorem isHashedInformation_unanchored_witness:
  "isHashedInformation (replicate 65 CHR ''a'') \<and>
   isHashedInformation (''call '' @ replicate 64 CHR ''F'' @ '' now'')"
proof
  have "64 \<le> length (replicate 65 CHR ''a'') \<and> list_all isHexDigit (replicate 65 CHR ''a'')"
    by (simp add: list_all_iff isHexDigit_def)
  with conjunct2 [OF isHashedInformation_unanchored
    [where hexes = "replicate 65 CHR ''a''" and before = "[]" and after = "[]"]]
  show "isHashedInformation (replicate 65 CHR ''a'')" by simp
next
  have "64 \<le> length (replicate 64 CHR ''F'') \<and> list_all isHexDigit (replicate 64 CHR ''F'')"
    by (simp add: list_all_iff isHexDigit_def)
  with conjunct2 [OF isHashedInformation_unanchored
    [where hexes = "replicate 64 CHR ''F''" and before = "''call ''" and after = "'' now''"]]
  show "isHashedInformation (''call '' @ replicate 64 CHR ''F'' @ '' now'')" by blast
qed

section \<open>Strings: lowercasing and stripping\<close>

lemma toLowerCase_char_idem: "toLowerCase_char (toLowerCase_char c) = toLowerCase_char c"
  unfolding toLowerCase_char_def Let_def by auto

lemma toLowerCase_char_whitespace: "isWhitespace (toLowerCase_char c) \<longleftrightarrow> isWhitespace c"
  unfolding toLowerCase_char_def Let_def isWhitespace_def by auto

lemma is_normalized_strip_lower: "is_normalized (strip_lower s)"
  by (auto simp: is_normalized_def toLowerCase_def replace_whitespace_def
      toLowerCase_char_idem toLowerCase_char_whitespace)

lemma strip_lower_fixed: "is_normalized s \<Longrightarrow> strip_lower s = s"
  by (induction s) (auto simp: is_normalized_def toLowerCase_def replace_whitespace_def)

lemma strip_lower_idem: "strip_lower (strip_lower s) = strip_lower s"
  by (rule strip_lower_fixed) (rule is_normalized_strip_lower)

lemma strip_lower_Nil: "strip_lower [] = []"
  by (simp add: toLowerCase_def replace_whitespace_def)

lemma isDigit_normal: "isDigit c \<Longrightarrow> \<not> isWhitespace c \<and> toLowerCase_char c = c"
  unfolding isDigit_def isWhitespace_def toLowerCase_char_def Let_def by auto

lemma is_normalized_digits: "is_normalized (replace_non_digits s)"
  by (auto simp: is_normalized_def replace_non_digits_def isDigit_normal)

lemma is_normalized_m_f: "is_normalized ''m''" "is_normalized ''f''"
  by (simp_all add: is_normalized_def isWhitespace_def toLowerCase_char_def)

section \<open>The steps of normalization, field by field\<close>

lemma step_email:
  "normalize_email p = p\<lparr>user_data := (user_data p)
     \<lparr>email := map_option strip_lower (email (user_data p))\<rparr>\<rparr>"
  by (cases "email (user_data p)")
    (simp_all add: normalize_email_def strip_lower_Nil)

lemma step_phone:
  "normalize_phone p = p\<lparr>user_data := (user_data p)
     \<lparr>phone := map_option norm_phone (phone (user_data p))\<rparr>\<rparr>"
  by (cases "phone (user_data p)")
    (simp_all add: normalize_phone_def norm_phone_def replace_non_digits_def)

lemma step_gender:
  "normalize_gender p = p\<lparr>user_data := (user_data p)
     \<lparr>gender := map_option norm_gender (gender (user_data p))\<rparr>\<rparr>"
  by (cases "gender (user_data p)")
    (simp_all add: normalize_gender_def norm_gender_def Let_def strip_lower_Nil)

lemma step_lastName:
  "normalize_lastName p = p\<lparr>user_data := (user_data p)
     \<lparr>lastName := map_option strip_lower (lastName (user_data p))\<rparr>\<rparr>"
  by (cases "lastName (user_data p)")
    (simp_all add: normalize_lastName_def strip_lower_Nil)

lemma step_firstName:
  "normalize_firstName p = p\<lparr>user_data := (user_data p)
     \<lparr>firstName := map_option strip_lower (firstName (user_data p))\<rparr>\<rparr>"
  by (cases "firstName (user_data p)")
    (simp_all add: normalize_firstName_def strip_lower_Nil)

lemma step_city:
  "normalize_city p = p\<lparr>user_data := (user_data p)
     \<lparr>city := map_option strip_lower (city (user_data p))\<rparr>\<rparr>"
  by (cases "city (user_data p)")
    (simp_all add: normalize_city_def strip_lower_Nil)

lemma step_state:
  "normalize_state T p = p\<lparr>user_data := (user_data p)
     \<lparr>state := map_option (norm_code T) (state (user_data p))\<rparr>\<rparr>"
  by (cases "state (user_data p)")
    (simp_all add: normalize_state_def norm_code_def Let_def)

lemma step_zip:
  "normalize_zip p = p\<lparr>user_data := (user_data p)
     \<lparr>zip_field := map_option strip_lower (zip_field (user_data p))\<rparr>\<rparr>"
  by (cases "zip_field (user_data p)")
    (simp_all add: normalize_zip_def strip_lower_Nil)

lemma step_country:
  "normalize_country T p = p\<lparr>user_data := (user_data p)
     \<lparr>country := map_option (norm_code T) (country (user_data p))\<rparr>\<rparr>"
  by (cases "country (user_data p)")
    (simp_all add: normalize_country_def norm_code_def Let_def)

lemma step_externalId:
  "normalize_externalId p = p\<lparr>user_data := (user_data p)
     \<lparr>externalId := norm_ext (externalId (user_data p))\<rparr>\<rparr>"
  by (auto simp: normalize_externalId_def isEmpty_def norm_ext_def Let_def
      split: option.splits str_or_arr.splits)

lemmas normalize_steps =
  step_email step_phone step_gender step_lastName step_firstName step_city step_state
  step_zip step_country step_externalId

lemma normalize_closed:
  "normalize_user_data S C p = p\<lparr>user_data := (user_data p)
     \<lparr>email := map_option strip_lower (email (user_data p)),
      phone := map_option norm_phone (phone (user_data p)),
      gender := map_option norm_gender (gender (user_data p)),
      lastName := map_option strip_lower (lastName (user_data p)),
      firstName := map_option strip_lower (firstName (user_data p)),
      city := map_option strip_lower (city (user_data p)),
      state := map_option (norm_code S) (state (user_data p)),
      zip_field := map_option strip_lower (zip_field (user_data p)),
      country := map_option (norm_code C) (country (user_data p)),
      externalId := norm_ext (externalId (user_data p))\<rparr>\<rparr>"
  unfolding normalize_user_data_def Let_def normalize_steps by simp

lemma field_after_normalize:
  "externalId (user_data (normalize_user_data S C p)) = norm_ext (externalId (user_data p))"
  "email (user_data (normalize_user_data S C p)) = map_option strip_lower (email (user_data p))"
  "phone (user_data (normalize_user_data S C p)) = map_option norm_phone (phone (user_data p))"
  "gender (user_data (normalize_user_data S C p)) = map_option norm_gender (gender (user_data p))"
  "dateOfBirth (user_data (normalize_user_data S C p)) = dateOfBirth (user_data p)"
  "lastName (user_data (normalize_user_data S C p)) = map_option strip_lower (lastName (user_data p))"
  "firstName (user_data (normalize_user_data S C p)) = map_option strip_lower (firstName (user_data p))"
  "city (user_data (normalize_user_data S C p)) = map_option strip_lower (city (user_data p))"
  "state (user_data (normalize_user_data S C p)) = map_option (norm_code S) (state (user_data p))"
  "zip_field (user_data (normalize_user_data S C p)) = map_option strip_lower (zip_field (user_data p))"
  "country (user_data (normalize_user_data S C p)) = map_option (norm_code C) (country (user_data p))"
  "client_ip_address (user_data (normalize_user_data S C p)) = client_ip_address (user_data p)"
  "client_user_agent (user_data (normalize_user_data S C p)) = client_user_agent (user_data p)"
  "fbc (user_data (normalize_user_data S C p)) = fbc (user_data p)"
  "fbp (user_data (normalize_user_data S C p)) = fbp (user_data p)"
  "subscriptionID (user_data (normalize_user_data S C p)) = subscriptionID (user_data p)"
  "leadID (user_data (normalize_user_data S C p)) = leadID (user_data p)"
  "fbLoginID (user_data (normalize_user_data S C p)) = fbLoginID (user_data p)"
  "anonId (user_data (normalize_user_data S C p)) = anonId (user_data p)"
  "madId (user_data (normalize_user_data S C p)) = madId (user_data p)"
  "partner_id (user_data (normalize_user_data S C p)) = partner_id (user_data p)"
  "partner_name (user_data (normalize_user_data S C p)) = partner_name (user_data p)"
  unfolding normalize_closed by simp_all

section \<open>The object built by the hashing routine\<close>


lemma key_after_hash:
  "em (fst (hash_user_data H S C p)) =
     hash H (map_option Str (email (user_data (normalize_user_data S C p))))"
  "ph (fst (hash_user_data H S C p)) =
     hash H (map_option Str (phone (user_data (normalize_user_data S C p))))"
  "ge (fst (hash_user_data H S C p)) =
     hash H (map_option Str (gender (user_data (normalize_user_data S C p))))"
  "db (fst (hash_user_data H S C p)) =
     hash H (map_option Str (dateOfBirth (user_data (normalize_user_data S C p))))"
  "ln (fst (hash_user_data H S C p)) =
     hash H (map_option Str (lastName (user_data (normalize_user_data S C p))))"
  "fn (fst (hash_user_data H S C p)) =
     hash H (map_option Str (firstName (user_data (normalize_user_data S C p))))"
  "ct (fst (hash_user_data H S C p)) =
     hash H (map_option Str (city (user_data (normalize_user_data S C p))))"
  "st (fst (hash_user_data H S C p)) =
     hash H (map_option Str (state (user_data (normalize_user_data S C p))))"
  "zp (fst (hash_user_data H S C p)) =
     hash H (map_option Str (zip_field (user_data (normalize_user_data S C p))))"
  "country_out (fst (hash_user_data H S C p)) =
     hash H (map_option Str (country (user_data (normalize_user_data S C p))))"
  "external_id (fst (hash_user_data H S C p)) =
     hash H (externalId (user_data (normalize_user_data S C p)))"
  "client_ip_address_out (fst (hash_user_data H S C p)) =
     client_ip_address (user_data (normalize_user_data S C p))"
  "client_user_agent_out (fst (hash_user_data H S C p)) =
     client_user_agent (user_data (normalize_user_data S C p))"
  "fbc_out (fst (hash_user_data H S C p)) =
     fbc (user_data (normalize_user_data S C p))"
  "fbp_out (fst (hash_user_data H S C p)) =
     fbp (user_data (normalize_user_data S C p))"
  "subscription_id (fst (hash_user_data H S C p)) =
     subscriptionID (user_data (normalize_user_data S C p))"
  "lead_id (fst (hash_user_data H S C p)) =
     leadID (user_data (normalize_user_data S C p))"
  "anon_id (fst (hash_user_data H S C p)) =
     anonId (user_data (normalize_user_data S C p))"
  "madid (fst (hash_user_data H S C p)) =
     madId (user_data (normalize_user_data S C p))"
  "fb_login_id (fst (hash_user_data H S C p)) =
     fbLoginID (user_data (normalize_user_data S C p))"
  "partner_id_out (fst (hash_user_data H S C p)) =
     partner_id (user_data (normalize_user_data S C p))"
  "partner_name_out (fst (hash_user_data H S C p)) =
     partner_name (user_data (normalize_user_data S C p))"
  by (simp_all add: hash_user_data_def Let_def)

lemma hash_undefined: "hash H None = None"
  by (simp add: hash_def)

lemma hash_string: "hash H (Some (Str s)) = (if s = [] then None else Some (Str (H s)))"
  by (simp add: hash_def)

lemma hash_array: "hash H (Some (Arr xs)) = (if xs = [] then None else Some (Arr (map H xs)))"
  by (simp add: hash_def)

section \<open>Idempotence of the field functions\<close>

lemma map_option_idem: "(\<And>x. f (f x) = f x) \<Longrightarrow> map_option f (map_option f v) = map_option f v"
  by (cases v) simp_all

lemma norm_phone_idem: "norm_phone (norm_phone s) = norm_phone s"
  by (simp add: norm_phone_def replace_non_digits_def)

lemma norm_gender_idem: "norm_gender (norm_gender s) = norm_gender s"
  by (simp add: norm_gender_def Let_def strip_lower_idem strip_lower_fixed is_normalized_m_f)

lemma norm_code_idem:
  assumes "stable_codes T"
  shows "norm_code T (norm_code T s) = norm_code T s"
proof (cases "T (strip_lower s)")
  case None
  then show ?thesis by (auto simp: norm_code_def strip_lower_idem)
next
  case (Some code)
  with assms have "is_normalized code" and "T code = None \<or> T code = Some code"
    unfolding stable_codes_def by blast+
  then have b: "norm_code T code = code"
    by (auto simp: norm_code_def strip_lower_fixed)
  from Some have a: "norm_code T s = (if s = [] then s else code)"
    by (simp add: norm_code_def)
  have c: "norm_code T [] = []" by (simp add: norm_code_def)
  from a b c show ?thesis by (cases "s = []") simp_all
qed

lemma norm_ext_idem: "norm_ext (norm_ext v) = norm_ext v"
  by (auto simp: norm_ext_def strip_lower_idem split: option.splits str_or_arr.splits)

lemma normalize_twice:
  assumes "stable_codes S" and "stable_codes C"
  shows "normalize_user_data S C (normalize_user_data S C p) = normalize_user_data S C p"
  unfolding normalize_closed
  by (simp add: map_option_idem strip_lower_idem norm_phone_idem norm_gender_idem norm_ext_idem
      norm_code_idem[OF assms(1)] norm_code_idem[OF assms(2)])

lemma stable_example_states: "stable_codes example_states"
  by (simp add: stable_codes_def example_states_def is_normalized_def isWhitespace_def
      toLowerCase_char_def)

lemma stable_example_countries: "stable_codes example_countries"
  by (simp add: stable_codes_def example_countries_def is_normalized_def isWhitespace_def
      toLowerCase_char_def)

lemma stable_codes_lowercase: "stable_codes T \<Longrightarrow> lowercase_codes T"
  unfolding stable_codes_def lowercase_codes_def by blast


section \<open>Claims about normalization and hashing\<close>

lemma norm_phone_Nil: "norm_phone [] = []"
  by (simp add: norm_phone_def replace_non_digits_def)

lemma norm_gender_Nil: "norm_gender [] = []"
  by (simp add: norm_gender_def strip_lower_Nil)

lemma norm_code_Nil: "norm_code T [] = []"
  by (simp add: norm_code_def)

lemma is_normalized_norm_gender: "is_normalized (norm_gender s)"
  by (simp add: norm_gender_def Let_def is_normalized_m_f is_normalized_strip_lower)

lemma is_normalized_Nil: "is_normalized []"
  by (simp add: is_normalized_def)

lemma is_normalized_norm_code: "lowercase_codes T \<Longrightarrow> is_normalized (norm_code T s)"
  by (auto simp: norm_code_def lowercase_codes_def is_normalized_strip_lower is_normalized_Nil
      split: option.splits)

text \<open>
  C1. Normalization is idempotent: normalizing a normalized payload changes nothing.
  Hence a second call of \<open>hash_user_data\<close> on the payload that the first call has left
  behind returns the same object as the first call. The code tables are parameters; the
  property needs that their codes are in normalized form and are not mapped further.
\<close>

theorem normalize_user_data_idempotent:
  assumes "stable_codes US_STATE_CODES" and "stable_codes COUNTRY_CODES"
  shows "normalize_user_data US_STATE_CODES COUNTRY_CODES
           (normalize_user_data US_STATE_CODES COUNTRY_CODES payload) =
         normalize_user_data US_STATE_CODES COUNTRY_CODES payload \<and>
         fst (hash_user_data processHashingV2 US_STATE_CODES COUNTRY_CODES
               (snd (hash_user_data processHashingV2 US_STATE_CODES COUNTRY_CODES payload))) =
         fst (hash_user_data processHashingV2 US_STATE_CODES COUNTRY_CODES payload)"
proof -
  note idem = normalize_twice [OF assms]
  show ?thesis by (simp add: hash_user_data_def Let_def idem)
qed

theorem normalize_user_data_idempotent_witness:
  "stable_codes example_states \<and> stable_codes example_countries \<and>
   normalize_user_data example_states example_countries
     (normalize_user_data example_states example_countries example_payload) =
   normalize_user_data example_states example_countries example_payload \<and>
   fst (hash_user_data example_digest example_states example_countries
         (snd (hash_user_data example_digest example_states example_countries example_payload))) =
   fst (hash_user_data example_digest example_states example_countries example_payload)"
proof -
  note t = normalize_user_data_idempotent [OF stable_example_states stable_example_countries,
      of example_payload example_digest]
  from stable_example_states stable_example_countries t show ?thesis by blast
qed

text \<open>
  C2. A non-empty phone that is not detected as already hashed is replaced by its digits,
  all other characters removed. A non-empty phone in which the 64-hex-character pattern
  occurs is left as it is by normalization, and \<open>hash_user_data\<close> passes it on unchanged
  when \<open>processHashingV2\<close> skips already-hashed values as the spec describes.
\<close>

theorem phone_digits_unless_prehashed:
  assumes "phone (user_data payload) = Some s" and "s \<noteq> []"
  shows "(\<not> isHashedInformation s \<longrightarrow>
            phone (user_data (normalize_user_data US_STATE_CODES COUNTRY_CODES payload)) =
              Some (replace_non_digits s) \<and>
            replace_non_digits s = filter (\<lambda>c. c \<in> set ''0123456789'') s) \<and>
         (isHashedInformation s \<longrightarrow>
            phone (user_data (normalize_user_data US_STATE_CODES COUNTRY_CODES payload)) = Some s \<and>
            ph (fst (hash_user_data (processHashingV2_spec digest) US_STATE_CODES COUNTRY_CODES
                      payload)) = Some (Str s))"
  using assms
  by (simp add: field_after_normalize key_after_hash hash_string norm_phone_def processHashingV2_spec_def
      replace_non_digits_def isDigit_def [abs_def])

theorem phone_digits_unless_prehashed_witness:
  "phone (user_data (normalize_user_data example_states example_countries
      \<lparr>user_data = no_user_data\<lparr>phone := Some ''+1 (555) 123-4567''\<rparr>\<rparr>)) = Some ''15551234567'' \<and>
   phone (user_data (normalize_user_data example_states example_countries
      \<lparr>user_data = no_user_data\<lparr>phone := Some example_sha256\<rparr>\<rparr>)) = Some example_sha256 \<and>
   ph (fst (hash_user_data (processHashingV2_spec example_digest) example_states example_countries
      \<lparr>user_data = no_user_data\<lparr>phone := Some example_sha256\<rparr>\<rparr>)) = Some (Str example_sha256)"
proof -
  have p1: "phone (user_data \<lparr>user_data = no_user_data\<lparr>phone := Some ''+1 (555) 123-4567''\<rparr>\<rparr>) =
      Some ''+1 (555) 123-4567''" by simp
  have n1: "''+1 (555) 123-4567'' \<noteq> []" by simp
  have h1: "\<not> isHashedInformation ''+1 (555) 123-4567''" by code_simp
  have e1: "replace_non_digits ''+1 (555) 123-4567'' = ''15551234567''" by code_simp
  have p2: "phone (user_data \<lparr>user_data = no_user_data\<lparr>phone := Some example_sha256\<rparr>\<rparr>) =
      Some example_sha256" by simp
  have n2: "example_sha256 \<noteq> []" by (simp add: example_sha256_def)
  have h2: "isHashedInformation example_sha256" by code_simp
  from phone_digits_unless_prehashed [OF p1 n1, of example_states example_countries] h1
  have "phone (user_data (normalize_user_data example_states example_countries
      \<lparr>user_data = no_user_data\<lparr>phone := Some ''+1 (555) 123-4567''\<rparr>\<rparr>)) =
      Some (replace_non_digits ''+1 (555) 123-4567'')" by blast
  moreover
  from phone_digits_unless_prehashed [OF p2 n2, of example_states example_countries example_digest] h2
  have "phone (user_data (normalize_user_data example_states example_countries
      \<lparr>user_data = no_user_data\<lparr>phone := Some example_sha256\<rparr>\<rparr>)) = Some example_sha256 \<and>
   ph (fst (hash_user_data (processHashingV2_spec example_digest) example_states example_countries
      \<lparr>user_data = no_user_data\<lparr>phone := Some example_sha256\<rparr>\<rparr>)) = Some (Str example_sha256)"
    by blast
  ultimately show ?thesis by (simp only: e1 simp_thms)
qed

text \<open>
  C3. A PII property that is undefined or the empty string (for \<open>externalId\<close> also the
  empty array) gives \<open>undefined\<close> under its key in the object that \<open>hash_user_data\<close>
  returns: the key holds no string at all, so neither an empty string nor the digest of
  the empty string.
\<close>

theorem hash_user_data_omits_empty_fields:
  "(email (user_data payload) \<in> {None, Some []} \<longrightarrow>
      em (fst (hash_user_data processHashingV2 US_STATE_CODES COUNTRY_CODES payload)) = None) \<and>
   (phone (user_data payload) \<in> {None, Some []} \<longrightarrow>
      ph (fst (hash_user_data processHashingV2 US_STATE_CODES COUNTRY_CODES payload)) = None) \<and>
   (gender (user_data payload) \<in> {None, Some []} \<longrightarrow>
      ge (fst (hash_user_data processHashingV2 US_STATE_CODES COUNTRY_CODES payload)) = None) \<and>
   (dateOfBirth (user_data payload) \<in> {None, Some []} \<longrightarrow>
      db (fst (hash_user_data processHashingV2 US_STATE_CODES COUNTRY_CODES payload)) = None) \<and>
   (lastName (user_data payload) \<in> {None, Some []} \<longrightarrow>
      ln (fst (hash_user_data processHashingV2 US_STATE_CODES COUNTRY_CODES payload)) = None) \<and>
   (firstName (user_data payload) \<in> {None, Some []} \<longrightarrow>
      fn (fst (hash_user_data processHashingV2 US_STATE_CODES COUNTRY_CODES payload)) = None) \<and>
   (city (user_data payload) \<in> {None, Some []} \<longrightarrow>
      ct (fst (hash_user_data processHashingV2 US_STATE_CODES COUNTRY_CODES payload)) = None) \<and>
   (state (user_data payload) \<in> {None, Some []} \<longrightarrow>
      st (fst (hash_user_data processHashingV2 US_STATE_CODES COUNTRY_CODES payload)) = None) \<and>
   (zip_field (user_data payload) \<in> {None, Some []} \<longrightarrow>
      zp (fst (hash_user_data processHashingV2 US_STATE_CODES COUNTRY_CODES payload)) = None) \<and>
   (country (user_data payload) \<in> {None, Some []} \<longrightarrow>
      country_out (fst (hash_user_data processHashingV2 US_STATE_CODES COUNTRY_CODES payload)) =
        None) \<and>
   (externalId (user_data payload) \<in> {None, Some (Str []), Some (Arr [])} \<longrightarrow>
      external_id (fst (hash_user_data processHashingV2 US_STATE_CODES COUNTRY_CODES payload)) =
        None)"
  by (auto simp: field_after_normalize key_after_hash hash_undefined hash_string hash_array
      strip_lower_Nil norm_phone_Nil norm_gender_Nil norm_code_Nil norm_ext_def)

theorem hash_user_data_omits_empty_fields_witness:
  "em (fst (hash_user_data example_digest example_states example_countries
       \<lparr>user_data = no_user_data\<lparr>email := Some [], state := Some [], externalId := Some (Arr [])\<rparr>\<rparr>)) = None \<and>
   st (fst (hash_user_data example_digest example_states example_countries
       \<lparr>user_data = no_user_data\<lparr>email := Some [], state := Some [], externalId := Some (Arr [])\<rparr>\<rparr>)) = None \<and>
   db (fst (hash_user_data example_digest example_states example_countries
       \<lparr>user_data = no_user_data\<lparr>email := Some [], state := Some [], externalId := Some (Arr [])\<rparr>\<rparr>)) = None \<and>
   external_id (fst (hash_user_data example_digest example_states example_countries
       \<lparr>user_data = no_user_data\<lparr>email := Some [], state := Some [], externalId := Some (Arr [])\<rparr>\<rparr>)) = None"
  using hash_user_data_omits_empty_fields [of
      "\<lparr>user_data = no_user_data\<lparr>email := Some [], state := Some [], externalId := Some (Arr [])\<rparr>\<rparr>"
      example_digest example_states example_countries]
  by (simp add: no_user_data_def)


text \<open>
  C4. A non-empty \<open>email\<close>, \<open>firstName\<close>, \<open>lastName\<close>, \<open>city\<close> or \<open>zip\<close> is replaced by the
  string that remains when every whitespace character, wherever it stands, is removed,
  set in lowercase. So the email \<^verbatim>\<open>" Test@Example.COM "\<close> becomes \<^verbatim>\<open>"test@example.com"\<close>.
\<close>

theorem text_fields_stripped_and_lowercased:
  "(\<forall>s. email (user_data payload) = Some s \<and> s \<noteq> [] \<longrightarrow>
      email (user_data (normalize_user_data US_STATE_CODES COUNTRY_CODES payload)) =
        Some (map toLowerCase_char (filter (\<lambda>c. \<not> isWhitespace c) s))) \<and>
   (\<forall>s. firstName (user_data payload) = Some s \<and> s \<noteq> [] \<longrightarrow>
      firstName (user_data (normalize_user_data US_STATE_CODES COUNTRY_CODES payload)) =
        Some (map toLowerCase_char (filter (\<lambda>c. \<not> isWhitespace c) s))) \<and>
   (\<forall>s. lastName (user_data payload) = Some s \<and> s \<noteq> [] \<longrightarrow>
      lastName (user_data (normalize_user_data US_STATE_CODES COUNTRY_CODES payload)) =
        Some (map toLowerCase_char (filter (\<lambda>c. \<not> isWhitespace c) s))) \<and>
   (\<forall>s. city (user_data payload) = Some s \<and> s \<noteq> [] \<longrightarrow>
      city (user_data (normalize_user_data US_STATE_CODES COUNTRY_CODES payload)) =
        Some (map toLowerCase_char (filter (\<lambda>c. \<not> isWhitespace c) s))) \<and>
   (\<forall>s. zip_field (user_data payload) = Some s \<and> s \<noteq> [] \<longrightarrow>
      zip_field (user_data (normalize_user_data US_STATE_CODES COUNTRY_CODES payload)) =
        Some (map toLowerCase_char (filter (\<lambda>c. \<not> isWhitespace c) s)))"
  by (simp add: field_after_normalize toLowerCase_def replace_whitespace_def)

theorem text_fields_stripped_and_lowercased_witness:
  "email (user_data (normalize_user_data example_states example_countries
       \<lparr>user_data = no_user_data\<lparr>email := Some '' Test@Example.COM ''\<rparr>\<rparr>)) =
     Some ''test@example.com'' \<and>
   city (user_data (normalize_user_data example_states example_countries
       \<lparr>user_data = no_user_data\<lparr>city := Some ''Menlo  Park''\<rparr>\<rparr>)) =
     Some ''menlopark''"
proof -
  have e1: "map toLowerCase_char (filter (\<lambda>c. \<not> isWhitespace c) '' Test@Example.COM '') =
      ''test@example.com''" by code_simp
  have e2: "map toLowerCase_char (filter (\<lambda>c. \<not> isWhitespace c) ''Menlo  Park'') =
      ''menlopark''" by code_simp
  note t1 = text_fields_stripped_and_lowercased [of
      "\<lparr>user_data = no_user_data\<lparr>email := Some '' Test@Example.COM ''\<rparr>\<rparr>" example_states example_countries]
  note t2 = text_fields_stripped_and_lowercased [of
      "\<lparr>user_data = no_user_data\<lparr>city := Some ''Menlo  Park''\<rparr>\<rparr>" example_states example_countries]
  have n1: "'' Test@Example.COM '' \<noteq> []" and n2: "''Menlo  Park'' \<noteq> []" by simp_all
  from t1 n1 have "email (user_data (normalize_user_data example_states example_countries
       \<lparr>user_data = no_user_data\<lparr>email := Some '' Test@Example.COM ''\<rparr>\<rparr>)) =
      Some (map toLowerCase_char (filter (\<lambda>c. \<not> isWhitespace c) '' Test@Example.COM ''))"
    by (simp del: list.map filter.simps)
  moreover from t2 n2 have "city (user_data (normalize_user_data example_states example_countries
       \<lparr>user_data = no_user_data\<lparr>city := Some ''Menlo  Park''\<rparr>\<rparr>)) =
      Some (map toLowerCase_char (filter (\<lambda>c. \<not> isWhitespace c) ''Menlo  Park''))"
    by (simp del: list.map filter.simps)
  ultimately show ?thesis by (simp only: e1 e2 simp_thms)
qed

text \<open>
  C5. A non-empty \<open>gender\<close> is stripped of all whitespace and set in lowercase; the result
  \<^verbatim>\<open>"male"\<close> is then replaced by \<^verbatim>\<open>"m"\<close> and \<^verbatim>\<open>"female"\<close> by \<^verbatim>\<open>"f"\<close>, and any other result is
  kept. So \<^verbatim>\<open>" Male "\<close> gives \<^verbatim>\<open>"m"\<close> and \<^verbatim>\<open>"Female"\<close> gives \<^verbatim>\<open>"f"\<close>.
\<close>

theorem gender_abbreviated:
  assumes "gender (user_data payload) = Some s" and "s \<noteq> []"
  shows "gender (user_data (normalize_user_data US_STATE_CODES COUNTRY_CODES payload)) =
           Some (if strip_lower s = ''male'' then ''m''
                 else if strip_lower s = ''female'' then ''f''
                 else strip_lower s)"
  using assms by (simp add: field_after_normalize norm_gender_def Let_def)

theorem gender_abbreviated_witness:
  "gender (user_data (normalize_user_data example_states example_countries
       \<lparr>user_data = no_user_data\<lparr>gender := Some '' Male ''\<rparr>\<rparr>)) = Some ''m'' \<and>
   gender (user_data (normalize_user_data example_states example_countries
       \<lparr>user_data = no_user_data\<lparr>gender := Some ''Female''\<rparr>\<rparr>)) = Some ''f'' \<and>
   gender (user_data (normalize_user_data example_states example_countries
       \<lparr>user_data = no_user_data\<lparr>gender := Some ''Non-Binary''\<rparr>\<rparr>)) = Some ''non-binary''"
proof -
  have e1: "strip_lower '' Male '' = ''male''" by code_simp
  have e2: "strip_lower ''Female'' = ''female''" by code_simp
  have e3: "strip_lower ''Non-Binary'' = ''non-binary''" by code_simp
  have "gender (user_data (normalize_user_data example_states example_countries
       \<lparr>user_data = no_user_data\<lparr>gender := Some '' Male ''\<rparr>\<rparr>)) =
      Some (if strip_lower '' Male '' = ''male'' then ''m''
            else if strip_lower '' Male '' = ''female'' then ''f'' else strip_lower '' Male '')"
    by (rule gender_abbreviated) simp_all
  moreover have "gender (user_data (normalize_user_data example_states example_countries
       \<lparr>user_data = no_user_data\<lparr>gender := Some ''Female''\<rparr>\<rparr>)) =
      Some (if strip_lower ''Female'' = ''male'' then ''m''
            else if strip_lower ''Female'' = ''female'' then ''f'' else strip_lower ''Female'')"
    by (rule gender_abbreviated) simp_all
  moreover have "gender (user_data (normalize_user_data example_states example_countries
       \<lparr>user_data = no_user_data\<lparr>gender := Some ''Non-Binary''\<rparr>\<rparr>)) =
      Some (if strip_lower ''Non-Binary'' = ''male'' then ''m''
            else if strip_lower ''Non-Binary'' = ''female'' then ''f''
            else strip_lower ''Non-Binary'')"
    by (rule gender_abbreviated) simp_all
  ultimately show ?thesis by (simp add: e1 e2 e3)
qed

text \<open>
  C6. A non-empty \<open>state\<close> is stripped of whitespace and set in lowercase; that string is
  looked up in the table of state codes, and the field becomes the code when the table
  has the string as a key, and the lowercase string itself otherwise. The same holds for
  \<open>country\<close> and the table of country codes. The tables are parameters: with a table that
  maps \<^verbatim>\<open>"california"\<close> to \<^verbatim>\<open>"ca"\<close> and has no key \<^verbatim>\<open>"zzyzx"\<close>, the state \<^verbatim>\<open>"California"\<close>
  gives \<^verbatim>\<open>"ca"\<close> and \<^verbatim>\<open>"Zzyzx"\<close> gives \<^verbatim>\<open>"zzyzx"\<close>.
\<close>

theorem state_country_rewritten_by_table:
  "(\<forall>s. state (user_data payload) = Some s \<and> s \<noteq> [] \<longrightarrow>
      state (user_data (normalize_user_data US_STATE_CODES COUNTRY_CODES payload)) =
        Some (case US_STATE_CODES (strip_lower s) of
                Some code \<Rightarrow> code | None \<Rightarrow> strip_lower s)) \<and>
   (\<forall>s. country (user_data payload) = Some s \<and> s \<noteq> [] \<longrightarrow>
      country (user_data (normalize_user_data US_STATE_CODES COUNTRY_CODES payload)) =
        Some (case COUNTRY_CODES (strip_lower s) of
                Some code \<Rightarrow> code | None \<Rightarrow> strip_lower s))"
  by (simp add: field_after_normalize norm_code_def)

theorem state_country_rewritten_by_table_witness:
  "state (user_data (normalize_user_data example_states example_countries
       \<lparr>user_data = no_user_data\<lparr>state := Some ''California''\<rparr>\<rparr>)) = Some ''ca'' \<and>
   state (user_data (normalize_user_data example_states example_countries
       \<lparr>user_data = no_user_data\<lparr>state := Some ''Zzyzx''\<rparr>\<rparr>)) = Some ''zzyzx'' \<and>
   country (user_data (normalize_user_data example_states example_countries
       \<lparr>user_data = no_user_data\<lparr>country := Some ''United States''\<rparr>\<rparr>)) = Some ''us''"
proof -
  have e1: "strip_lower ''California'' = ''california''" by code_simp
  have e2: "strip_lower ''Zzyzx'' = ''zzyzx''" by code_simp
  have e3: "strip_lower ''United States'' = ''unitedstates''" by code_simp
  note t1 = state_country_rewritten_by_table [of
      "\<lparr>user_data = no_user_data\<lparr>state := Some ''California''\<rparr>\<rparr>" example_states example_countries]
  note t2 = state_country_rewritten_by_table [of
      "\<lparr>user_data = no_user_data\<lparr>state := Some ''Zzyzx''\<rparr>\<rparr>" example_states example_countries]
  note t3 = state_country_rewritten_by_table [of
      "\<lparr>user_data = no_user_data\<lparr>country := Some ''United States''\<rparr>\<rparr>" example_states example_countries]
  from t1 have "state (user_data (normalize_user_data example_states example_countries
       \<lparr>user_data = no_user_data\<lparr>state := Some ''California''\<rparr>\<rparr>)) =
      Some (case example_states (strip_lower ''California'') of
              Some code \<Rightarrow> code | None \<Rightarrow> strip_lower ''California'')" by simp
  moreover from t2 have "state (user_data (normalize_user_data example_states example_countries
       \<lparr>user_data = no_user_data\<lparr>state := Some ''Zzyzx''\<rparr>\<rparr>)) =
      Some (case example_states (strip_lower ''Zzyzx'') of
              Some code \<Rightarrow> code | None \<Rightarrow> strip_lower ''Zzyzx'')" by simp
  moreover from t3 have "country (user_data (normalize_user_data example_states example_countries
       \<lparr>user_data = no_user_data\<lparr>country := Some ''United States''\<rparr>\<rparr>)) =
      Some (case example_countries (strip_lower ''United States'') of
              Some code \<Rightarrow> code | None \<Rightarrow> strip_lower ''United States'')" by simp
  ultimately show ?thesis
    by (simp add: e1 e2 e3 example_states_def example_countries_def)
qed

text \<open>
  C7. A non-empty \<open>externalId\<close> that is a single string becomes the array of that one string;
  every element of the array is stripped of whitespace and set in lowercase; and
  \<open>hash_user_data\<close> puts under \<open>external_id\<close> an array of the same length whose element at
  each index is \<open>processHashingV2\<close> of the normalized element at that index. So
  \<^verbatim>\<open>"User123"\<close> is normalized to \<^verbatim>\<open>["user123"]\<close> and hashed to an array of one digest.
\<close>

theorem externalId_coerced_and_hashed_elementwise:
  "(\<forall>s. externalId (user_data payload) = Some (Str s) \<and> s \<noteq> [] \<longrightarrow>
      externalId (user_data (normalize_user_data US_STATE_CODES COUNTRY_CODES payload)) = Some (Arr [strip_lower s]) \<and>
      external_id (fst (hash_user_data processHashingV2 US_STATE_CODES COUNTRY_CODES payload)) = Some (Arr [processHashingV2 (strip_lower s)])) \<and>
   (\<forall>xs. externalId (user_data payload) = Some (Arr xs) \<and> xs \<noteq> [] \<longrightarrow>
      externalId (user_data (normalize_user_data US_STATE_CODES COUNTRY_CODES payload)) = Some (Arr (map strip_lower xs)) \<and>
      (\<exists>ds. external_id (fst (hash_user_data processHashingV2 US_STATE_CODES COUNTRY_CODES payload)) = Some (Arr ds) \<and>
         length ds = length xs \<and>
         (\<forall>i < length xs. ds ! i = processHashingV2 (strip_lower (xs ! i)))))"
  by (simp add: field_after_normalize key_after_hash norm_ext_def hash_array)

theorem externalId_coerced_and_hashed_elementwise_witness:
  "externalId (user_data (normalize_user_data example_states example_countries
       \<lparr>user_data = no_user_data\<lparr>externalId := Some (Str ''User123'')\<rparr>\<rparr>)) = Some (Arr [''user123'']) \<and>
   external_id (fst (hash_user_data example_digest example_states example_countries
       \<lparr>user_data = no_user_data\<lparr>externalId := Some (Str ''User123'')\<rparr>\<rparr>)) = Some (Arr [''digest:user123'']) \<and>
   externalId (user_data (normalize_user_data example_states example_countries example_payload)) = Some (Arr [''user123'', ''abcd'']) \<and>
   length (case external_id (fst (hash_user_data example_digest example_states example_countries example_payload)) of Some (Arr ds) \<Rightarrow> ds | _ \<Rightarrow> []) = 2"
proof -
  have e1: "strip_lower ''User123'' = ''user123''" by code_simp
  have e2: "strip_lower ''AB cd'' = ''abcd''" by code_simp
  note t1 = externalId_coerced_and_hashed_elementwise [of
      "\<lparr>user_data = no_user_data\<lparr>externalId := Some (Str ''User123'')\<rparr>\<rparr>" example_states example_countries example_digest]
  note t2 = externalId_coerced_and_hashed_elementwise [of
      example_payload example_states example_countries example_digest]
  from t1 have "externalId (user_data (normalize_user_data example_states example_countries
       \<lparr>user_data = no_user_data\<lparr>externalId := Some (Str ''User123'')\<rparr>\<rparr>)) = Some (Arr [strip_lower ''User123'']) \<and>
   external_id (fst (hash_user_data example_digest example_states example_countries
       \<lparr>user_data = no_user_data\<lparr>externalId := Some (Str ''User123'')\<rparr>\<rparr>)) = Some (Arr [example_digest (strip_lower ''User123'')])" by simp
  moreover from t2 have "externalId (user_data (normalize_user_data example_states example_countries example_payload)) = Some (Arr (map strip_lower [''User123'', ''AB cd''])) \<and>
      (\<exists>ds. external_id (fst (hash_user_data example_digest example_states example_countries example_payload)) = Some (Arr ds) \<and> length ds = 2)"
    by (auto simp: example_payload_def)
  ultimately show ?thesis
    by (auto simp: e1 e2 example_digest_def)
qed

text \<open>
  C8. After normalization every field that was processed (a non-empty \<open>email\<close>, \<open>gender\<close>,
  \<open>firstName\<close>, \<open>lastName\<close>, \<open>city\<close>, \<open>state\<close>, \<open>zip\<close> or \<open>country\<close>, a non-empty phone, every
  element of a non-empty \<open>externalId\<close>) has no whitespace character and no character that
  lowercasing would change; the one exception is a phone detected as already hashed,
  which is left as it was. The code tables are parameters; the property needs that their
  codes are written in lowercase without whitespace.
\<close>

theorem normalized_fields_lowercase_no_whitespace:
  assumes "lowercase_codes US_STATE_CODES" and "lowercase_codes COUNTRY_CODES"
  shows "(\<forall>s. email (user_data payload) = Some s \<and> s \<noteq> [] \<longrightarrow>
      (\<exists>t. email (user_data (normalize_user_data US_STATE_CODES COUNTRY_CODES payload)) = Some t \<and>
         is_normalized t)) \<and>
   (\<forall>s. gender (user_data payload) = Some s \<and> s \<noteq> [] \<longrightarrow>
      (\<exists>t. gender (user_data (normalize_user_data US_STATE_CODES COUNTRY_CODES payload)) = Some t \<and>
         is_normalized t)) \<and>
   (\<forall>s. firstName (user_data payload) = Some s \<and> s \<noteq> [] \<longrightarrow>
      (\<exists>t. firstName (user_data (normalize_user_data US_STATE_CODES COUNTRY_CODES payload)) = Some t \<and>
         is_normalized t)) \<and>
   (\<forall>s. lastName (user_data payload) = Some s \<and> s \<noteq> [] \<longrightarrow>
      (\<exists>t. lastName (user_data (normalize_user_data US_STATE_CODES COUNTRY_CODES payload)) = Some t \<and>
         is_normalized t)) \<and>
   (\<forall>s. city (user_data payload) = Some s \<and> s \<noteq> [] \<longrightarrow>
      (\<exists>t. city (user_data (normalize_user_data US_STATE_CODES COUNTRY_CODES payload)) = Some t \<and>
         is_normalized t)) \<and>
   (\<forall>s. state (user_data payload) = Some s \<and> s \<noteq> [] \<longrightarrow>
      (\<exists>t. state (user_data (normalize_user_data US_STATE_CODES COUNTRY_CODES payload)) = Some t \<and>
         is_normalized t)) \<and>
   (\<forall>s. zip_field (user_data payload) = Some s \<and> s \<noteq> [] \<longrightarrow>
      (\<exists>t. zip_field (user_data (normalize_user_data US_STATE_CODES COUNTRY_CODES payload)) = Some t \<and>
         is_normalized t)) \<and>
   (\<forall>s. country (user_data payload) = Some s \<and> s \<noteq> [] \<longrightarrow>
      (\<exists>t. country (user_data (normalize_user_data US_STATE_CODES COUNTRY_CODES payload)) = Some t \<and>
         is_normalized t)) \<and>
   (\<forall>s. phone (user_data payload) = Some s \<and> s \<noteq> [] \<longrightarrow>
      (if isHashedInformation s
       then phone (user_data (normalize_user_data US_STATE_CODES COUNTRY_CODES payload)) = Some s
       else \<exists>t. phone (user_data (normalize_user_data US_STATE_CODES COUNTRY_CODES payload)) = Some t \<and>
         is_normalized t)) \<and>
   (\<not> isEmpty (externalId (user_data payload)) \<longrightarrow>
      (\<exists>ts. externalId (user_data (normalize_user_data US_STATE_CODES COUNTRY_CODES payload)) = Some (Arr ts) \<and>
         (\<forall>t \<in> set ts. is_normalized t)))"
proof -
  note n = is_normalized_strip_lower is_normalized_norm_gender is_normalized_digits
    is_normalized_norm_code [OF assms(1)] is_normalized_norm_code [OF assms(2)]
  have ext: "\<not> isEmpty v \<Longrightarrow> \<exists>ts. norm_ext v = Some (Arr ts) \<and> (\<forall>t \<in> set ts. is_normalized t)"
    for v
    by (auto simp: isEmpty_def norm_ext_def is_normalized_strip_lower
        split: option.splits str_or_arr.splits)
  show ?thesis
    by (simp add: field_after_normalize n ext norm_phone_def)
qed

theorem normalized_fields_lowercase_no_whitespace_witness:
  "lowercase_codes example_states \<and>
   lowercase_codes example_countries \<and>
   (\<exists>t. email (user_data (normalize_user_data example_states example_countries example_payload)) = Some t \<and> is_normalized t) \<and>
   (\<exists>t. gender (user_data (normalize_user_data example_states example_countries example_payload)) = Some t \<and> is_normalized t) \<and>
   (\<exists>t. firstName (user_data (normalize_user_data example_states example_countries example_payload)) = Some t \<and> is_normalized t) \<and>
   (\<exists>t. lastName (user_data (normalize_user_data example_states example_countries example_payload)) = Some t \<and> is_normalized t) \<and>
   (\<exists>t. city (user_data (normalize_user_data example_states example_countries example_payload)) = Some t \<and> is_normalized t) \<and>
   (\<exists>t. state (user_data (normalize_user_data example_states example_countries example_payload)) = Some t \<and> is_normalized t) \<and>
   (\<exists>t. zip_field (user_data (normalize_user_data example_states example_countries example_payload)) = Some t \<and> is_normalized t) \<and>
   (\<exists>t. country (user_data (normalize_user_data example_states example_countries example_payload)) = Some t \<and> is_normalized t) \<and>
   (\<exists>t. phone (user_data (normalize_user_data example_states example_countries example_payload)) = Some t \<and> is_normalized t) \<and>
   (\<exists>ts. externalId (user_data (normalize_user_data example_states example_countries example_payload)) = Some (Arr ts) \<and>
      (\<forall>t \<in> set ts. is_normalized t))"
proof -
  have l1: "lowercase_codes example_states"
    by (rule stable_codes_lowercase) (rule stable_example_states)
  have l2: "lowercase_codes example_countries"
    by (rule stable_codes_lowercase) (rule stable_example_countries)
  have h: "\<not> isHashedInformation ''+1 (555) 123-4567''" by code_simp
  note t = normalized_fields_lowercase_no_whitespace [OF l1 l2, of example_payload]
  have f: "email (user_data example_payload) = Some '' Test@Example.COM ''"
    "gender (user_data example_payload) = Some '' Male ''"
    "firstName (user_data example_payload) = Some ''Ann''"
    "lastName (user_data example_payload) = Some ''Van Dyke''"
    "city (user_data example_payload) = Some ''Menlo Park''"
    "state (user_data example_payload) = Some ''California''"
    "zip_field (user_data example_payload) = Some ''94 025''"
    "country (user_data example_payload) = Some ''United States''"
    "phone (user_data example_payload) = Some ''+1 (555) 123-4567''"
    "externalId (user_data example_payload) = Some (Arr [''User123'', ''AB cd''])"
    by (simp_all add: example_payload_def)
  from t l1 l2 show ?thesis
    by (simp add: f h isEmpty_def)
qed

text \<open>
  C9. \<open>hash_user_data\<close> copies every non-PII property of the payload it was given to the
  object it returns, under the key of the platform and with the value as it was; and
  normalization leaves \<open>dateOfBirth\<close> as it was.
\<close>

theorem non_pii_fields_copied:
  "client_ip_address_out (fst (hash_user_data processHashingV2 US_STATE_CODES COUNTRY_CODES payload)) =
     client_ip_address (user_data payload) \<and>
   client_user_agent_out (fst (hash_user_data processHashingV2 US_STATE_CODES COUNTRY_CODES payload)) =
     client_user_agent (user_data payload) \<and>
   fbc_out (fst (hash_user_data processHashingV2 US_STATE_CODES COUNTRY_CODES payload)) =
     fbc (user_data payload) \<and>
   fbp_out (fst (hash_user_data processHashingV2 US_STATE_CODES COUNTRY_CODES payload)) =
     fbp (user_data payload) \<and>
   subscription_id (fst (hash_user_data processHashingV2 US_STATE_CODES COUNTRY_CODES payload)) =
     subscriptionID (user_data payload) \<and>
   lead_id (fst (hash_user_data processHashingV2 US_STATE_CODES COUNTRY_CODES payload)) =
     leadID (user_data payload) \<and>
   anon_id (fst (hash_user_data processHashingV2 US_STATE_CODES COUNTRY_CODES payload)) =
     anonId (user_data payload) \<and>
   madid (fst (hash_user_data processHashingV2 US_STATE_CODES COUNTRY_CODES payload)) =
     madId (user_data payload) \<and>
   fb_login_id (fst (hash_user_data processHashingV2 US_STATE_CODES COUNTRY_CODES payload)) =
     fbLoginID (user_data payload) \<and>
   partner_id_out (fst (hash_user_data processHashingV2 US_STATE_CODES COUNTRY_CODES payload)) =
     partner_id (user_data payload) \<and>
   partner_name_out (fst (hash_user_data processHashingV2 US_STATE_CODES COUNTRY_CODES payload)) =
     partner_name (user_data payload) \<and>
   dateOfBirth (user_data (normalize_user_data US_STATE_CODES COUNTRY_CODES payload)) =
     dateOfBirth (user_data payload)"
  by (simp add: field_after_normalize key_after_hash)

theorem non_pii_fields_copied_witness:
  "client_ip_address_out (fst (hash_user_data example_digest example_states example_countries example_payload)) =
     Some ''192.0.2.1'' \<and>
   client_user_agent_out (fst (hash_user_data example_digest example_states example_countries example_payload)) =
     Some ''Mozilla/5.0 (X11)'' \<and>
   fbc_out (fst (hash_user_data example_digest example_states example_countries example_payload)) =
     Some ''fb.1.1554763741205.AbCdEf'' \<and>
   fbp_out (fst (hash_user_data example_digest example_states example_countries example_payload)) =
     Some ''fb.1.1558571054389.1098115397'' \<and>
   subscription_id (fst (hash_user_data example_digest example_states example_countries example_payload)) =
     Some ''Sub 1'' \<and>
   lead_id (fst (hash_user_data example_digest example_states example_countries example_payload)) =
     Some 1234 \<and>
   anon_id (fst (hash_user_data example_digest example_states example_countries example_payload)) =
     Some ''Anon 1'' \<and>
   madid (fst (hash_user_data example_digest example_states example_countries example_payload)) =
     Some ''38400000-8CF0-11BD-B23E-10B96E40000D'' \<and>
   fb_login_id (fst (hash_user_data example_digest example_states example_countries example_payload)) =
     Some 5678 \<and>
   partner_id_out (fst (hash_user_data example_digest example_states example_countries example_payload)) =
     Some ''Partner 1'' \<and>
   partner_name_out (fst (hash_user_data example_digest example_states example_countries example_payload)) =
     Some ''Partner Name'' \<and>
   dateOfBirth (user_data (normalize_user_data example_states example_countries example_payload)) =
     Some ''1997 12 26''"
  using non_pii_fields_copied [of example_digest example_states example_countries example_payload]
  by (simp add: example_payload_def)

end
